theory Spec2Isabelle
  imports Main "HOL-Library.AList"
begin

section \<open>Python values used by the tokenizer module\<close>

text \<open>
  A Python \<open>str\<close> is a sequence of code points; the code never looks inside a code point
  except to ask whether it is whitespace (\<open>str.strip\<close>, \<open>str.isspace\<close>). A string is
  therefore a list over an arbitrary character type \<open>'c\<close>, \<open>len\<close> is \<open>length\<close>, and the
  whitespace test of the interpreter is a predicate on \<open>'c\<close> that the environment supplies.
\<close>

datatype error =
  AttributeError | TypeError | ValueError | KeyError | OSError | ZeroDivisionError

definition strip :: "('c \<Rightarrow> bool) \<Rightarrow> 'c list \<Rightarrow> 'c list" where
  \<comment> \<open>\<open>line.strip()\<close>: whitespace removed at both ends.\<close>
  "strip ws s = rev (dropWhile ws (rev (dropWhile ws s)))"

definition str_isspace :: "('c \<Rightarrow> bool) \<Rightarrow> 'c list \<Rightarrow> bool" where
  \<comment> \<open>\<open>line.isspace()\<close>: at least one character, and all of them whitespace.\<close>
  "str_isspace ws s = (s \<noteq> [] \<and> list_all ws s)"

subsection \<open>\<open>dict\<close> and \<open>collections.Counter\<close>\<close>

text \<open>
  A \<open>dict\<close> keeps its keys in insertion order: it is an association list with distinct
  keys. \<open>d[k] = v\<close> is \<open>AList.update k v d\<close> (the value is replaced in place, a new key
  goes to the end), \<open>del d[k]\<close> is \<open>AList.delete k d\<close>, \<open>k in d\<close> is membership in the
  keys. A \<open>Counter\<close> is a \<open>dict\<close> whose missing keys read as zero.
\<close>

type_synonym 'k counter = "('k \<times> int) list"

definition dict_get :: "('k \<times> 'v) list \<Rightarrow> 'k \<Rightarrow> 'v \<Rightarrow> 'v" where
  \<comment> \<open>\<open>d.get(k, default)\<close>; with default 0 also \<open>counter[k]\<close>.\<close>
  "dict_get d k dflt = (case map_of d k of None \<Rightarrow> dflt | Some v \<Rightarrow> v)"

definition dict_from_pairs :: "('k \<times> 'v) list \<Rightarrow> ('k \<times> 'v) list" where
  \<comment> \<open>\<open>dict(pairs)\<close>: the pairs are stored one after the other, a later pair with the
     same key overwrites the value of the earlier one.\<close>
  "dict_from_pairs ps = foldl (\<lambda>d (k, v). AList.update k v d) [] ps"

definition Counter :: "'k list \<Rightarrow> 'k counter" where
  \<comment> \<open>\<open>Counter(words)\<close>: for each element, \<open>mapping[elem] = mapping.get(elem, 0) + 1\<close>.\<close>
  "Counter words = foldl (\<lambda>c w. AList.update w (dict_get c w 0 + 1) c) [] words"

definition counter_add :: "'k counter \<Rightarrow> 'k counter \<Rightarrow> 'k counter" where
  \<comment> \<open>\<open>Counter.__add__\<close>: the counts of the left operand plus those of the right one,
     then the keys only the right operand has; only positive counts are kept.\<close>
  "counter_add a b =
     (let r1 = foldl (\<lambda>r (e, n). let newcount = n + dict_get b e 0
                                   in if newcount > 0 then AList.update e newcount r else r) [] a
      in foldl (\<lambda>r (e, n). if e \<notin> set (map fst a) \<and> n > 0 then AList.update e n r else r) r1 b)"

definition counter_sum :: "'k counter list \<Rightarrow> 'k counter" where
  \<comment> \<open>\<open>sum(counters, Counter())\<close>: a left fold of \<open>+\<close> from the empty counter.\<close>
  "counter_sum counters = foldl counter_add [] counters"

definition most_common :: "int \<Rightarrow> 'k counter \<Rightarrow> ('k \<times> int) list" where
  \<comment> \<open>\<open>Counter.most_common(n)\<close>: the \<open>n\<close> entries of highest count, highest first, ties in
     insertion order; nothing for \<open>n \<le> 0\<close>. A new list: the counter is not changed.\<close>
  "most_common n c = take (nat n) (sort_key (\<lambda>(k, v). - v) c)"

text \<open>
  After the cutoff branch of \<open>count_parallel\<close> the variable \<open>counter_all\<close> holds either the
  \<open>Counter\<close> itself or a list of pairs. \<open>list + x\<close> is defined when \<open>x\<close> is a list only;
  \<open>Counter\<close> has no \<open>__radd__\<close>, so \<open>list + Counter\<close> raises \<open>TypeError\<close>.
\<close>

datatype 'k counter_all = IsCounter "'k counter" | IsList "('k \<times> int) list"

fun list_add :: "('k \<times> int) list \<Rightarrow> 'k counter_all \<Rightarrow> error + ('k \<times> int) list" where
  "list_add xs (IsList ys) = Inr (xs @ ys)"
| "list_add xs (IsCounter c) = Inl TypeError"

section \<open>\<open>CustomPreTokenizer\<close>\<close>

fun break_points :: "'c list list \<Rightarrow> nat \<Rightarrow> nat list \<Rightarrow> nat list" where
  \<comment> \<open>The first loop of \<open>split\<close>: \<open>total_i += len(word); break_i.append(total_i)\<close>.\<close>
  "break_points [] total_i break_i = break_i"
| "break_points (word # ws) total_i break_i =
     break_points ws (total_i + length word) (break_i @ [total_i + length word])"

fun split_loop :: "nat list \<Rightarrow> 'c list \<Rightarrow> nat list \<Rightarrow> 'c list list \<times> nat \<Rightarrow> 'c list list \<times> nat" where
  \<comment> \<open>The second loop, over the indices of the string, with the state \<open>(splits, last)\<close>
     (\<open>last_i\<close> here); \<open>s[last:i]\<close> is \<open>take (i - last_i) (drop last_i s)\<close>.\<close>
  "split_loop break_i s [] st = st"
| "split_loop break_i s (i # is) (splits, last_i) =
     (if i \<in> set break_i
      then split_loop break_i s is (splits @ [take (i - last_i) (drop last_i s)], i)
      else split_loop break_i s is (splits, last_i))"

definition split :: "('c list \<Rightarrow> 'c list list) \<Rightarrow> 'c list \<Rightarrow> 'c list list" where
  \<comment> \<open>\<open>CustomPreTokenizer.split\<close>; the argument \<open>n\<close> of the source is not used.\<close>
  "split pre_tokenize_func normalized_string =
     (let break_i = break_points (pre_tokenize_func normalized_string) 0 [];
          (splits, last_i) = split_loop break_i normalized_string
                               [0 ..< length normalized_string] ([], 0)
      in splits @ [drop last_i normalized_string])"

section \<open>\<open>WordLevelTrainer\<close>\<close>

record 'c WordLevelTrainer =
  pre_tokenize_func :: "'c list \<Rightarrow> 'c list list"
  vocab_size :: "int option"
  special_tokens :: "'c list list"
  input_files :: "'c list list"
  vocab :: "('c list \<times> nat) list option"
  freq :: "('c list \<times> int) list option"
  vocab_min_freq :: "int option"
  progress :: bool

definition WordLevelTrainer_init ::
  "('c list \<Rightarrow> 'c list list) \<Rightarrow> 'c list list \<Rightarrow> 'c list list \<Rightarrow> int option \<Rightarrow> int option \<Rightarrow> bool
     \<Rightarrow> error + 'c WordLevelTrainer" where
  \<comment> \<open>\<open>__init__\<close>; \<open>None\<close> is the default of \<open>vocab_size\<close> and \<open>vocab_min_freq\<close>.\<close>
  "WordLevelTrainer_init f files specials vsize min_freq prog =
     (if min_freq \<noteq> None \<and> vsize \<noteq> None then Inl AttributeError
      else Inr \<lparr> pre_tokenize_func = f, vocab_size = vsize, special_tokens = specials,
                 input_files = files, vocab = None, freq = None,
                 vocab_min_freq = min_freq, progress = prog \<rparr>)"

text \<open>
  The world outside the trainer: \<open>open_file fname\<close> is the sequence of lines that
  \<open>readline\<close> yields for the file (\<open>None\<close> when \<open>open\<close> raises), \<open>get_file_size\<close> is the
  helper of that name, whose module is not part of the sources, and \<open>isspace\<close> is the
  whitespace test of the interpreter.
\<close>

record 'c env =
  open_file :: "'c list \<Rightarrow> 'c list list option"
  get_file_size :: "'c list \<Rightarrow> int"
  isspace :: "'c \<Rightarrow> bool"

fun read_lines ::
  "'c env \<Rightarrow> 'c WordLevelTrainer \<Rightarrow> int \<Rightarrow> 'c list list \<Rightarrow> nat \<Rightarrow> 'c list list
     \<Rightarrow> error + 'c list list" where
  \<comment> \<open>The \<open>while True\<close> loop of \<open>count_one\<close>, with the state \<open>(i, words)\<close>. \<open>readline\<close>
     returns the empty string at the end of the file, which leaves the loop. The progress
     line is printed every 5000 lines and divides by the file size.\<close>
  "read_lines e t file_size [] i words = Inr words"
| "read_lines e t file_size (line # rest) i words =
     (if line \<noteq> [] then
        let l = strip (isspace e) line;
            words' = (if length l > 0 \<and> \<not> str_isspace (isspace e) l
                      then words @ pre_tokenize_func t l else words);
            i' = i + 1
        in if progress t \<and> i' mod 5000 = 0 \<and> file_size = 0 then Inl ZeroDivisionError
           else read_lines e t file_size rest i' words'
      else Inr words)"

definition read_words :: "'c env \<Rightarrow> 'c WordLevelTrainer \<Rightarrow> 'c list \<Rightarrow> error + 'c list list" where
  \<comment> \<open>\<open>count_one\<close> up to its last line: the words of one file.\<close>
  "read_words e t fname =
     (case open_file e fname of
        None \<Rightarrow> Inl OSError
      | Some lines \<Rightarrow> read_lines e t (get_file_size e fname) lines 0 [])"

definition count_one :: "'c env \<Rightarrow> 'c WordLevelTrainer \<Rightarrow> 'c list \<Rightarrow> error + 'c list counter" where
  "count_one e t fname =
     (case read_words e t fname of Inl err \<Rightarrow> Inl err | Inr words \<Rightarrow> Inr (Counter words))"

fun count_files ::
  "'c env \<Rightarrow> 'c WordLevelTrainer \<Rightarrow> 'c list list \<Rightarrow> error + 'c list counter list" where
  \<comment> \<open>\<open>[self.count_one(fname) for fname in self.input_files]\<close>: the first error ends it.\<close>
  "count_files e t [] = Inr []"
| "count_files e t (fname # fnames) =
     (case count_one e t fname of
        Inl err \<Rightarrow> Inl err
      | Inr c \<Rightarrow> (case count_files e t fnames of
                    Inl err \<Rightarrow> Inl err
                  | Inr cs \<Rightarrow> Inr (c # cs)))"

fun remove_special ::
  "'k list \<Rightarrow> ('k \<times> int) list \<times> 'k counter \<Rightarrow> ('k \<times> int) list \<times> 'k counter" where
  \<comment> \<open>The loop over \<open>self.special_tokens\<close>, with the state
     \<open>(special_tok_freq, counter_all)\<close>.\<close>
  "remove_special [] st = st"
| "remove_special (tok # toks) (special_tok_freq, counter_all) =
     (if tok \<in> set (map fst counter_all)
      then remove_special toks
             (AList.update tok (dict_get counter_all tok 0) special_tok_freq,
              AList.delete tok counter_all)
      else remove_special toks (special_tok_freq, counter_all))"

definition min_freq_items :: "int option \<Rightarrow> 'k counter \<Rightarrow> error + ('k \<times> int) list" where
  \<comment> \<open>\<open>[(key, value) for key, value in counter_all.items() if value >= self.vocab_min_freq]\<close>.
     With \<open>vocab_min_freq\<close> \<open>None\<close>, the comparison \<open>value >= None\<close> of the first item raises
     \<open>TypeError\<close>; no item, no comparison.\<close>
  "min_freq_items min_freq c =
     (case min_freq of
        None \<Rightarrow> (if c = [] then Inr [] else Inl TypeError)
      | Some m \<Rightarrow> Inr (filter (\<lambda>(key, value). value \<ge> m) c))"

definition cutoff :: "'c WordLevelTrainer \<Rightarrow> 'c list counter \<Rightarrow> error + 'c list counter_all" where
  \<comment> \<open>The \<open>if self.vocab_size is not None\<close> statement. In its first branch the result of
     \<open>most_common\<close> is not assigned: \<open>counter_all\<close> stays the \<open>Counter\<close>.\<close>
  "cutoff t counter_all =
     (case vocab_size t of
        Some n \<Rightarrow> (let unused = most_common n counter_all in Inr (IsCounter counter_all))
      | None \<Rightarrow> (case min_freq_items (vocab_min_freq t) counter_all of
                   Inl err \<Rightarrow> Inl err
                 | Inr items \<Rightarrow> Inr (IsList items)))"

definition count_parallel ::
  "'c env \<Rightarrow> 'c WordLevelTrainer \<Rightarrow> error + (('c list \<times> nat) list \<times> 'c WordLevelTrainer)" where
  \<comment> \<open>Returns the vocabulary and the trainer with \<open>self.freq\<close> and \<open>self.vocab\<close> assigned.
     Every error is raised before the first assignment to \<open>self\<close>.\<close>
  "count_parallel e t =
     (case count_files e t (input_files t) of
        Inl err \<Rightarrow> Inl err
      | Inr counters \<Rightarrow>
          (let (special_tok_freq, counter_all) =
                 remove_special (special_tokens t) ([], counter_sum counters)
           in case cutoff t counter_all of
                Inl err \<Rightarrow> Inl err
              | Inr counter_all' \<Rightarrow>
                  (case list_add (map (\<lambda>tok. (tok, dict_get special_tok_freq tok 0))
                                      (special_tokens t)) counter_all' of
                     Inl err \<Rightarrow> Inl err
                   | Inr fr \<Rightarrow>
                       (let v = dict_from_pairs (map (\<lambda>(i, c). (fst c, i)) (enumerate 0 fr))
                        in Inr (v, t\<lparr> freq := Some fr, vocab := Some v \<rparr>)))))"

text \<open>
  The words of the whole corpus in reading order, and the observed frequency of a token:
  the number of its occurrences among them.
\<close>

fun corpus_words :: "'c env \<Rightarrow> 'c WordLevelTrainer \<Rightarrow> 'c list list \<Rightarrow> error + 'c list list" where
  "corpus_words e t [] = Inr []"
| "corpus_words e t (fname # fnames) =
     (case read_words e t fname of
        Inl err \<Rightarrow> Inl err
      | Inr ws \<Rightarrow> (case corpus_words e t fnames of
                     Inl err \<Rightarrow> Inl err
                   | Inr ws' \<Rightarrow> Inr (ws @ ws')))"

definition observed :: "'k list \<Rightarrow> 'k \<Rightarrow> int" where
  "observed ws tok = int (count_list ws tok)"

definition counts :: "'k counter \<Rightarrow> 'k list \<Rightarrow> bool" where
  \<comment> \<open>The counter \<open>c\<close> holds exactly the frequencies of the words \<open>ws\<close>.\<close>
  "counts c ws \<longleftrightarrow>
     distinct (map fst c) \<and>
     map_of c = (\<lambda>k. if k \<in> set ws then Some (observed ws k) else None)"

section \<open>\<open>ThaiWordsNewmmTokenizer\<close>\<close>

text \<open>
  What the methods below read from the tokenizer: the ids of the \<open>cls\<close>, \<open>sep\<close> and \<open>unk\<close>
  tokens, which the base class of the framework provides, and \<open>tokenizer_model.token_to_id\<close>,
  the lookup in the word-level vocabulary, which is \<open>None\<close> for a token that is not in it.
  The methods do nothing with an id but copy and compare it, so the type \<open>'i\<close> of ids is
  left open; it is \<open>int\<close> in the program.
\<close>

record ('c, 'i) ThaiWordsNewmmTokenizer =
  cls_token_id :: 'i
  sep_token_id :: 'i
  unk_token_id :: 'i
  token_to_id :: "'c list \<Rightarrow> 'i option"

definition build_inputs_with_special_tokens ::
  "('c, 'i) ThaiWordsNewmmTokenizer \<Rightarrow> 'i list \<Rightarrow> 'i list option \<Rightarrow> 'i list" where
  "build_inputs_with_special_tokens tk token_ids_0 token_ids_1 =
     (case token_ids_1 of
        None \<Rightarrow> [cls_token_id tk] @ token_ids_0 @ [sep_token_id tk]
      | Some ids_1 \<Rightarrow>
          (let cls = [cls_token_id tk]; sep = [sep_token_id tk]
           in cls @ token_ids_0 @ sep @ sep @ ids_1 @ sep))"

definition get_special_tokens_mask ::
  "('c, 'i) ThaiWordsNewmmTokenizer \<Rightarrow> 'i list \<Rightarrow> 'i list option \<Rightarrow> bool \<Rightarrow> error + int list" where
  "get_special_tokens_mask tk token_ids_0 token_ids_1 already_has_special_tokens =
     (if already_has_special_tokens then
        (if token_ids_1 \<noteq> None then Inl ValueError
         else Inr (map (\<lambda>x. if x \<in> set [sep_token_id tk, cls_token_id tk] then 1 else 0)
                       token_ids_0))
      else
        (case token_ids_1 of
           None \<Rightarrow> Inr ([1] @ replicate (length token_ids_0) 0 @ [1])
         | Some ids_1 \<Rightarrow>
             Inr ([1] @ replicate (length token_ids_0) 0 @ [1, 1]
                      @ replicate (length ids_1) 0 @ [1])))"

definition create_token_type_ids_from_sequences ::
  "('c, 'i) ThaiWordsNewmmTokenizer \<Rightarrow> 'i list \<Rightarrow> 'i list option \<Rightarrow> int list" where
  "create_token_type_ids_from_sequences tk token_ids_0 token_ids_1 =
     (let sep = [sep_token_id tk]; cls = [cls_token_id tk]
      in case token_ids_1 of
           None \<Rightarrow> replicate (length (cls @ token_ids_0 @ sep)) 0
         | Some ids_1 \<Rightarrow>
             replicate (length (cls @ token_ids_0 @ sep @ sep @ ids_1 @ sep)) 0)"


text \<open>
  To say where \<open>build_inputs_with_special_tokens\<close> puts the special tokens, the same method
  is run on a tokenizer whose ids carry their origin: \<open>Cls\<close> and \<open>Sep\<close> for the two special
  tokens, \<open>Tok i\<close> for an id \<open>i\<close> of the input. \<open>unmark\<close> forgets the origin again.
\<close>

datatype 'i slot = Cls | Sep | Tok 'i

definition marked :: "('c, 'i) ThaiWordsNewmmTokenizer \<Rightarrow> ('c, 'i slot) ThaiWordsNewmmTokenizer" where
  "marked tk = \<lparr> cls_token_id = Cls, sep_token_id = Sep, unk_token_id = Tok (unk_token_id tk),
                 token_to_id = (\<lambda>token. map_option Tok (token_to_id tk token)) \<rparr>"

fun unmark :: "('c, 'i) ThaiWordsNewmmTokenizer \<Rightarrow> 'i slot \<Rightarrow> 'i" where
  "unmark tk Cls = cls_token_id tk"
| "unmark tk Sep = sep_token_id tk"
| "unmark tk (Tok i) = i"

fun inserted :: "'i slot \<Rightarrow> bool" where
  "inserted (Tok i) = False"
| "inserted s = True"

section \<open>The fine-tuning script\<close>









section \<open>A small corpus, a tokenizer and a command line\<close>

text \<open>
  Concrete inputs for the statements below: a pre-tokenizer that cuts a line at its
  blanks, two files, and a word-level vocabulary of four tokens.
\<close>

fun split_on_blank :: "string \<Rightarrow> string \<Rightarrow> string list" where
  "split_on_blank [] cur = (if cur = [] then [] else [cur])"
| "split_on_blank (c # cs) cur =
     (if c = CHR '' '' then (if cur = [] then split_on_blank cs []
                             else cur # split_on_blank cs [])
      else split_on_blank cs (cur @ [c]))"

definition blank_tokenize :: "string \<Rightarrow> string list" where
  "blank_tokenize line = split_on_blank line []"

definition demo_env :: "char env" where
  "demo_env =
     \<lparr> open_file = map_of
         [(''a.txt'', [''x y x'' @ [CHR 0x0A], [CHR 0x0A], ''<s> y z'' @ [CHR 0x0A]]),
          (''b.txt'', [''  x w '' @ [CHR 0x0A], ''x''])],
       get_file_size = (\<lambda>fname. 16),
       isspace = (\<lambda>c. c = CHR '' '' \<or> c = CHR 0x0A) \<rparr>"

definition demo_trainer :: "string list \<Rightarrow> int option \<Rightarrow> int option \<Rightarrow> char WordLevelTrainer" where
  \<comment> \<open>The trainer that \<open>__init__\<close> leaves behind when it does not raise.\<close>
  "demo_trainer specials vsize min_freq =
     \<lparr> pre_tokenize_func = blank_tokenize, vocab_size = vsize, special_tokens = specials,
       input_files = [''a.txt'', ''b.txt''], vocab = None, freq = None,
       vocab_min_freq = min_freq, progress = True \<rparr>"

definition demo_tokenizer :: "(char, int) ThaiWordsNewmmTokenizer" where
  "demo_tokenizer =
     \<lparr> cls_token_id = 0, sep_token_id = 2, unk_token_id = 3,
       token_to_id = map_of [(''<s>'', 0), (''<pad>'', 1), (''</s>'', 2), (''<unk>'', 3), (''x'', 4)] \<rparr>"



section \<open>The pre-tokenizer keeps the string\<close>

text \<open>
  The second loop of \<open>split\<close> keeps the segments found so far equal to the string up to
  \<open>last\<close>, whatever the break points are.
\<close>

lemma split_loop_inv:
  "concat splits = take l s \<Longrightarrow> sorted is \<Longrightarrow> (\<forall>i \<in> set is. l \<le> i) \<Longrightarrow>
   split_loop br s is (splits, l) = (splits', l') \<Longrightarrow> concat splits' = take l' s"
proof (induction "is" arbitrary: splits l)
  case Nil
  then show ?case by simp
next
  case (Cons i "is")
  show ?case
  proof (cases "i \<in> set br")
    case True
    from Cons.prems have li: "l \<le> i" by simp
    have "take i s = take l s @ take (i - l) (drop l s)"
      using take_add [of l "i - l" s] li by simp
    then have c: "concat (splits @ [take (i - l) (drop l s)]) = take i s"
      using Cons.prems(1) by simp
    from Cons.prems(2) have s: "sorted is" and ge: "\<forall>j \<in> set is. i \<le> j" by auto
    from Cons.prems(4) True
    have "split_loop br s is (splits @ [take (i - l) (drop l s)], i) = (splits', l')" by simp
    from Cons.IH [OF c s ge this] show ?thesis .
  next
    case False
    from Cons.prems(2) have s: "sorted is" by simp
    from Cons.prems(3) have ge: "\<forall>j \<in> set is. l \<le> j" by simp
    from Cons.prems(4) False have "split_loop br s is (splits, l) = (splits', l')" by simp
    from Cons.IH [OF Cons.prems(1) s ge this] show ?thesis .
  qed
qed

text \<open>
  C8: for every input string and every pre-tokenize function, whatever list of words it
  returns, the segments that \<open>CustomPreTokenizer.split\<close> returns, put one after the other,
  are the input string: nothing is lost, repeated or moved.
\<close>

theorem split_concat: "concat (split f s) = s"
proof -
  obtain splits' l' where
    r: "split_loop (break_points (f s) 0 []) s [0 ..< length s] ([], 0) = (splits', l')"
    by (cases "split_loop (break_points (f s) 0 []) s [0 ..< length s] ([], 0)")
  have "concat splits' = take l' s"
    by (rule split_loop_inv [OF _ _ _ r]) simp_all
  then show ?thesis using r by (simp add: split_def)
qed

section \<open>The constructor of the trainer\<close>

text \<open>
  C3: constructing \<open>WordLevelTrainer\<close> with both \<open>vocab_size\<close> and \<open>vocab_min_freq\<close> set
  raises \<open>AttributeError\<close>; with at most one of the two set the constructor does not raise
  and returns the trainer.
\<close>

theorem init_attribute_error:
  "(vsize \<noteq> None \<and> min_freq \<noteq> None \<longrightarrow>
      WordLevelTrainer_init f files specials vsize min_freq prog = Inl AttributeError) \<and>
   (vsize = None \<or> min_freq = None \<longrightarrow>
      (\<exists>t. WordLevelTrainer_init f files specials vsize min_freq prog = Inr t))"
  by (auto simp: WordLevelTrainer_init_def)

theorem init_attribute_error_witness:
  "WordLevelTrainer_init blank_tokenize [''a.txt''] [''<s>''] (Some 10) (Some 2) True
     = Inl AttributeError \<and>
   (\<exists>t. WordLevelTrainer_init blank_tokenize [''a.txt''] [''<s>''] None (Some 2) True = Inr t) \<and>
   (\<exists>t. WordLevelTrainer_init blank_tokenize [''a.txt''] [''<s>''] (Some 10) None True = Inr t)"
  using init_attribute_error [of "Some 10" "Some 2" blank_tokenize "[''a.txt'']" "[''<s>'']" True]
    init_attribute_error [of None "Some 2" blank_tokenize "[''a.txt'']" "[''<s>'']" True]
    init_attribute_error [of "Some 10" None blank_tokenize "[''a.txt'']" "[''<s>'']" True]
  by simp

section \<open>Tokens to ids\<close>



section \<open>Special tokens around the input ids\<close>

lemma build_marked:
  "build_inputs_with_special_tokens tk ids_0 ids_1 =
   map (unmark tk) (build_inputs_with_special_tokens (marked tk) (map Tok ids_0)
                      (map_option (map Tok) ids_1))"
  by (cases ids_1) (simp_all add: build_inputs_with_special_tokens_def marked_def comp_def)

lemma mask_marked:
  "get_special_tokens_mask tk ids_0 ids_1 False =
   Inr (map (\<lambda>s. if inserted s then 1 else 0)
          (build_inputs_with_special_tokens (marked tk) (map Tok ids_0)
             (map_option (map Tok) ids_1)))"
  by (cases ids_1)
    (simp_all add: get_special_tokens_mask_def build_inputs_with_special_tokens_def
      marked_def comp_def map_replicate_const)

lemma type_ids_length:
  "create_token_type_ids_from_sequences tk ids_0 ids_1 =
   replicate (length (build_inputs_with_special_tokens tk ids_0 ids_1)) 0"
  by (cases ids_1)
    (simp_all add: create_token_type_ids_from_sequences_def build_inputs_with_special_tokens_def)

text \<open>
  C10: for every list \<open>token_ids_0\<close> and every optional list \<open>token_ids_1\<close>,
  \<open>create_token_type_ids_from_sequences\<close> returns zeros, as many as
  \<open>build_inputs_with_special_tokens\<close> returns ids, and \<open>get_special_tokens_mask\<close> with
  \<open>already_has_special_tokens = False\<close> returns a list of that length over 0 and 1 that
  is 1 exactly at the positions where \<open>build_inputs_with_special_tokens\<close> puts the \<open>cls\<close>
  and \<open>sep\<close> tokens. The positions are read off the run on the marked tokenizer, which
  is the run on the tokenizer itself once the marks are forgotten.
\<close>

theorem special_tokens_mask_matches_build:
  "create_token_type_ids_from_sequences tk ids_0 ids_1 =
     replicate (length (build_inputs_with_special_tokens tk ids_0 ids_1)) 0 \<and>
   build_inputs_with_special_tokens tk ids_0 ids_1 =
     map (unmark tk) (build_inputs_with_special_tokens (marked tk) (map Tok ids_0)
                        (map_option (map Tok) ids_1)) \<and>
   (\<exists>m. get_special_tokens_mask tk ids_0 ids_1 False = Inr m \<and>
        length m = length (build_inputs_with_special_tokens tk ids_0 ids_1) \<and>
        set m \<subseteq> {0, 1} \<and>
        (\<forall>j < length m.
           (m ! j = 1) =
           inserted (build_inputs_with_special_tokens (marked tk) (map Tok ids_0)
                       (map_option (map Tok) ids_1) ! j)))"
proof -
  let ?b = "build_inputs_with_special_tokens (marked tk) (map Tok ids_0)
              (map_option (map Tok) ids_1)"
  let ?m = "map (\<lambda>s. if inserted s then 1 else (0::int)) ?b"
  have len: "length ?m = length (build_inputs_with_special_tokens tk ids_0 ids_1)"
    by (subst (2) build_marked) simp
  have bits: "set ?m \<subseteq> {0, 1}" by auto
  have pos: "\<forall>j < length ?m. (?m ! j = 1) = inserted (?b ! j)" by simp
  from len bits pos mask_marked [of tk ids_0 ids_1] have
    "\<exists>m. get_special_tokens_mask tk ids_0 ids_1 False = Inr m \<and>
        length m = length (build_inputs_with_special_tokens tk ids_0 ids_1) \<and>
        set m \<subseteq> {0, 1} \<and> (\<forall>j < length m. (m ! j = 1) = inserted (?b ! j))"
    by blast
  with type_ids_length [of tk ids_0 ids_1] build_marked [of tk ids_0 ids_1]
  show ?thesis by blast
qed

theorem special_tokens_mask_matches_build_witness:
  "build_inputs_with_special_tokens demo_tokenizer [4, 5] (Some [6]) = [0, 4, 5, 2, 2, 6, 2] \<and>
   build_inputs_with_special_tokens (marked demo_tokenizer) (map Tok [4, 5])
     (map_option (map Tok) (Some [6])) = [Cls, Tok 4, Tok 5, Sep, Sep, Tok 6, Sep] \<and>
   create_token_type_ids_from_sequences demo_tokenizer [4, 5] (Some [6]) = [0, 0, 0, 0, 0, 0, 0] \<and>
   get_special_tokens_mask demo_tokenizer [4, 5] (Some [6]) False = Inr [1, 0, 0, 1, 1, 0, 1] \<and>
   get_special_tokens_mask demo_tokenizer [4, 5] None False = Inr [1, 0, 0, 1] \<and>
   build_inputs_with_special_tokens demo_tokenizer [4, 5] None = [0, 4, 5, 2]"
  using special_tokens_mask_matches_build [of demo_tokenizer "[4, 5]" "Some [6]"]
    special_tokens_mask_matches_build [of demo_tokenizer "[4, 5]" None]
  by (simp add: build_inputs_with_special_tokens_def get_special_tokens_mask_def
      create_token_type_ids_from_sequences_def demo_tokenizer_def marked_def numeral_eq_Suc)

section \<open>The tokenizer type on the command line\<close>



section \<open>The vocabulary builder with a maximum size\<close>

lemma cutoff_size: "vocab_size t = Some n \<Longrightarrow> cutoff t c = Inr (IsCounter c)"
  by (simp add: cutoff_def)

text \<open>
  C1: with \<open>vocab_size = n\<close> the builder is meant to keep the \<open>n\<close> most frequent tokens.
  It calls \<open>most_common\<close> and drops the result, so \<open>counter_all\<close> is still a \<open>Counter\<close>
  when the list of special tokens is put in front of it: \<open>count_parallel\<close> raises
  \<open>TypeError\<close> for every corpus it can read and returns no vocabulary.
\<close>

theorem vocab_size_never_returns:
  "vocab_size t = Some n \<Longrightarrow>
   (case count_files e t (input_files t) of
      Inl err \<Rightarrow> count_parallel e t = Inl err
    | Inr counters \<Rightarrow> count_parallel e t = Inl TypeError)"
  by (simp add: count_parallel_def cutoff_size split: sum.splits prod.splits)

lemma demo_count_files:
  "count_files demo_env (demo_trainer specials vsize min_freq) [''a.txt'', ''b.txt''] =
   Inr [[(''x'', 2), (''y'', 2), (''<s>'', 1), (''z'', 1)], [(''x'', 2), (''w'', 1)]]"
  by (simp add: count_one_def read_words_def demo_env_def demo_trainer_def strip_def
      str_isspace_def blank_tokenize_def Counter_def dict_get_def)

theorem vocab_size_never_returns_witness:
  "vocab_size (demo_trainer [''<s>'', ''<pad>''] (Some 2) None) = Some 2 \<and>
   count_parallel demo_env (demo_trainer [''<s>'', ''<pad>''] (Some 2) None) = Inl TypeError"
  using vocab_size_never_returns
    [of "demo_trainer [''<s>'', ''<pad>''] (Some 2) None" 2 demo_env]
    demo_count_files [of "[''<s>'', ''<pad>'']" "Some 2" None]
  by (simp add: demo_trainer_def)

end
